theory Spec2Isabelle
  imports
    Complex_Main
    "HOL-Library.Multiset"
    "HOL-Library.Char_ord"
    "HOL-Library.List_Lexorder"
    "HOL-Library.Product_Lexorder"
begin

section \<open>Row types of the catalog reader (lib/pg-schema.ts)\<close>

text \<open>
  The row types share field names (\<open>table_schema\<close>, \<open>table_name\<close>, \<open>column_name\<close>,
  \<open>ordinal_position\<close>, \<open>constraint_name\<close>), so they are records extending one another:
  every TypeScript field keeps its name. A JavaScript \<open>number\<close> holding a catalog integer
  is an \<open>int\<close>; \<open>T | null\<close> is an \<open>option\<close>.
\<close>

record RelationRow =
  table_schema :: string
  table_name :: string

record TableRow = RelationRow +
  table_type :: string

record KeyColumnRow = RelationRow +
  column_name :: string
  ordinal_position :: int

record ColumnRow = KeyColumnRow +
  data_type :: string
  udt_schema :: string
  udt_name :: string
  is_nullable :: string
  column_default :: "string option"
  character_maximum_length :: "int option"
  numeric_precision :: "int option"
  numeric_scale :: "int option"

record EnumTypeRow =
  nspname :: string
  typname :: string
  enumlabel :: string
  enumsortorder :: int

record ConstraintRow = KeyColumnRow +
  constraint_name :: string

type_synonym PrimaryKeyRow = ConstraintRow
type_synonym UniqueRow = ConstraintRow

record ForeignKeyRow = ConstraintRow +
  ref_table_schema :: string
  ref_table_name :: string
  ref_column_name :: string

record IndexRow =
  schemaname :: string
  tablename :: string
  indexname :: string
  indexdef :: string

record SchemaData =
  tables :: "TableRow list"
  columns :: "ColumnRow list"
  enums :: "EnumTypeRow list"
  primaryKeys :: "PrimaryKeyRow list"
  uniques :: "UniqueRow list"
  foreignKeys :: "ForeignKeyRow list"
  indexes :: "IndexRow list"

section \<open>Thrown values and promises\<close>

text \<open>
  A thrown JavaScript value is either an \<open>Error\<close> object, of which only the message is
  read, or any other value, of which only \<open>String(err)\<close> is read.
\<close>

datatype js_error = Error string | Thrown string

fun error_text :: "js_error \<Rightarrow> string" where
  "error_text (Error m) = m"
| "error_text (Thrown s) = s"

text \<open>
  The promise returned by \<open>client.query(q)\<close>: it stays pending for ever, rejects at some
  instant with a thrown value, or fulfils with the rows of the result.
\<close>

datatype 'r promise = Pending | Rejected nat js_error | Fulfilled "'r list"

fun rejection :: "'r promise \<Rightarrow> (nat \<times> js_error) list" where
  "rejection (Rejected t e) = [(t, e)]"
| "rejection _ = []"

fun rows :: "'r promise \<Rightarrow> 'r list option" where
  "rows (Fulfilled rs) = Some rs"
| "rows _ = None"

text \<open>
  \<open>Promise.all\<close> rejects as soon as one member rejects, with that member's value: the
  earliest rejection of the list, the first of the array among simultaneous ones.
\<close>

fun earliest :: "nat \<times> js_error \<Rightarrow> (nat \<times> js_error) list \<Rightarrow> nat \<times> js_error" where
  "earliest r [] = r"
| "earliest r (x # xs) = (if fst x < fst r then earliest x xs else earliest r xs)"

section \<open>fetchSchemaData\<close>

text \<open>
  The connected client, as \<open>fetchSchemaData\<close> sees it: one promise for each of the seven
  query texts handed to \<open>client.query\<close>, named after the query constant.
\<close>

record Client =
  query_TABLES :: "TableRow promise"
  query_COLUMNS :: "ColumnRow promise"
  query_ENUMS :: "EnumTypeRow promise"
  query_PRIMARY_KEYS :: "PrimaryKeyRow promise"
  query_UNIQUES :: "UniqueRow promise"
  query_FOREIGN_KEYS :: "ForeignKeyRow promise"
  query_INDEXES :: "IndexRow promise"

definition rejections :: "Client \<Rightarrow> (nat \<times> js_error) list" where
  "rejections client =
     rejection (query_TABLES client) @ rejection (query_COLUMNS client) @
     rejection (query_ENUMS client) @ rejection (query_PRIMARY_KEYS client) @
     rejection (query_UNIQUES client) @ rejection (query_FOREIGN_KEYS client) @
     rejection (query_INDEXES client)"

definition all_rows :: "Client \<Rightarrow> SchemaData option" where
  "all_rows client =
     Option.bind (rows (query_TABLES client)) (\<lambda>tablesRes.
     Option.bind (rows (query_COLUMNS client)) (\<lambda>columnsRes.
     Option.bind (rows (query_ENUMS client)) (\<lambda>enumsRes.
     Option.bind (rows (query_PRIMARY_KEYS client)) (\<lambda>pkRes.
     Option.bind (rows (query_UNIQUES client)) (\<lambda>uniquesRes.
     Option.bind (rows (query_FOREIGN_KEYS client)) (\<lambda>fkRes.
     Option.bind (rows (query_INDEXES client)) (\<lambda>indexesRes.
       Some \<lparr> tables = tablesRes, columns = columnsRes, enums = enumsRes,
              primaryKeys = pkRes, uniques = uniquesRes, foreignKeys = fkRes,
              indexes = indexesRes \<rparr>)))))))"

text \<open>
  The awaited call: \<open>None\<close> when the promise of \<open>fetchSchemaData\<close> never settles,
  \<open>Some (Inl e)\<close> when it rejects with \<open>e\<close>, \<open>Some (Inr data)\<close> when it returns.
\<close>

definition fetchSchemaData :: "Client \<Rightarrow> (js_error + SchemaData) option" where
  "fetchSchemaData client =
     (case rejections client of
        r # rs \<Rightarrow> Some (Inl (snd (earliest r rs)))
      | [] \<Rightarrow> map_option Inr (all_rows client))"

fun is_rejected :: "'r promise \<Rightarrow> bool" where
  "is_rejected (Rejected t e) = True"
| "is_rejected _ = False"

definition some_query_failed :: "Client \<Rightarrow> bool" where
  "some_query_failed client \<longleftrightarrow>
     is_rejected (query_TABLES client) \<or> is_rejected (query_COLUMNS client) \<or>
     is_rejected (query_ENUMS client) \<or> is_rejected (query_PRIMARY_KEYS client) \<or>
     is_rejected (query_UNIQUES client) \<or> is_rejected (query_FOREIGN_KEYS client) \<or>
     is_rejected (query_INDEXES client)"

definition query_errors :: "Client \<Rightarrow> js_error set" where
  "query_errors client = snd ` set (rejections client)"

section \<open>The seven catalog queries\<close>

text \<open>
  The catalog relations the query texts read, each with the columns the texts mention.
  \<open>information_schema.tables\<close>, \<open>information_schema.columns\<close> and \<open>pg_indexes\<close> are
  read without a join, and their rows are the row types above. The fields of the joined
  relations carry the alias of the query text (\<open>tc.table_schema\<close> is \<open>tc_table_schema\<close>;
  \<open>key_column_usage\<close> is \<open>kcu\<close>, and \<open>fk\<close> in the foreign-key query;
  \<open>constraint_column_usage\<close> is \<open>pk\<close> there).
\<close>

record table_constraints =
  tc_constraint_name :: string
  tc_table_schema :: string
  tc_table_name :: string
  tc_constraint_type :: string

record key_column_usage =
  kcu_constraint_catalog :: string
  kcu_constraint_schema :: string
  kcu_constraint_name :: string
  kcu_table_schema :: string
  kcu_table_name :: string
  kcu_column_name :: string
  kcu_ordinal_position :: int

record referential_constraints =
  rc_constraint_catalog :: string
  rc_constraint_schema :: string
  rc_constraint_name :: string
  rc_unique_constraint_catalog :: string
  rc_unique_constraint_schema :: string
  rc_unique_constraint_name :: string

record constraint_column_usage =
  pk_constraint_catalog :: string
  pk_constraint_schema :: string
  pk_constraint_name :: string
  pk_table_schema :: string
  pk_table_name :: string
  pk_column_name :: string

record pg_type =
  t_oid :: nat
  t_typname :: string
  t_typtype :: string
  t_typnamespace :: nat

record pg_enum =
  e_enumtypid :: nat
  e_enumlabel :: string
  e_enumsortorder :: int

record pg_namespace =
  n_oid :: nat
  n_nspname :: string

record Catalog =
  information_schema_tables :: "TableRow list"
  information_schema_columns :: "ColumnRow list"
  pg_type :: "pg_type list"
  pg_enum :: "pg_enum list"
  pg_namespace :: "pg_namespace list"
  information_schema_table_constraints :: "table_constraints list"
  information_schema_key_column_usage :: "key_column_usage list"
  information_schema_referential_constraints :: "referential_constraints list"
  information_schema_constraint_column_usage :: "constraint_column_usage list"
  pg_indexes :: "IndexRow list"

text \<open>
  Each query text is a selection (\<open>FROM\<close>, \<open>JOIN ... ON\<close>, \<open>WHERE\<close>, \<open>SELECT\<close>), whose
  rows come in no particular order, and an \<open>ORDER BY\<close> key.
\<close>

definition TABLES_QUERY :: "Catalog \<Rightarrow> TableRow list" where
  "TABLES_QUERY db =
     [r. r \<leftarrow> information_schema_tables db,
         table_schema r \<notin> set [''pg_catalog'', ''information_schema''],
         table_type r \<in> set [''BASE TABLE'', ''VIEW'']]"

definition TABLES_ORDER_BY :: "TableRow \<Rightarrow> string \<times> string" where
  "TABLES_ORDER_BY r = (table_schema r, table_name r)"

definition COLUMNS_QUERY :: "Catalog \<Rightarrow> ColumnRow list" where
  "COLUMNS_QUERY db =
     [r. r \<leftarrow> information_schema_columns db,
         table_schema r \<notin> set [''pg_catalog'', ''information_schema'']]"

definition COLUMNS_ORDER_BY :: "ColumnRow \<Rightarrow> string \<times> string \<times> int" where
  "COLUMNS_ORDER_BY r = (table_schema r, table_name r, ordinal_position r)"

definition ENUMS_QUERY :: "Catalog \<Rightarrow> EnumTypeRow list" where
  "ENUMS_QUERY db =
     [\<lparr> nspname = n_nspname n, typname = t_typname t, enumlabel = e_enumlabel e,
        enumsortorder = e_enumsortorder e \<rparr>.
      t \<leftarrow> pg_type db,
      e \<leftarrow> pg_enum db, e_enumtypid e = t_oid t,
      n \<leftarrow> pg_namespace db, n_oid n = t_typnamespace t,
      t_typtype t = ''e'',
      n_nspname n \<notin> set [''pg_catalog'', ''information_schema'']]"

definition ENUMS_ORDER_BY :: "EnumTypeRow \<Rightarrow> string \<times> string \<times> int" where
  "ENUMS_ORDER_BY r = (nspname r, typname r, enumsortorder r)"

definition PRIMARY_KEYS_QUERY :: "Catalog \<Rightarrow> PrimaryKeyRow list" where
  "PRIMARY_KEYS_QUERY db =
     [\<lparr> table_schema = tc_table_schema tc, table_name = tc_table_name tc,
        column_name = kcu_column_name kcu, ordinal_position = kcu_ordinal_position kcu,
        constraint_name = tc_constraint_name tc \<rparr>.
      tc \<leftarrow> information_schema_table_constraints db,
      kcu \<leftarrow> information_schema_key_column_usage db,
      tc_constraint_name tc = kcu_constraint_name kcu \<and>
        tc_table_schema tc = kcu_table_schema kcu,
      tc_constraint_type tc = ''PRIMARY KEY'',
      tc_table_schema tc \<notin> set [''pg_catalog'', ''information_schema'']]"

definition PRIMARY_KEYS_ORDER_BY :: "PrimaryKeyRow \<Rightarrow> string \<times> string \<times> int" where
  "PRIMARY_KEYS_ORDER_BY r = (table_schema r, table_name r, ordinal_position r)"

definition UNIQUES_QUERY :: "Catalog \<Rightarrow> UniqueRow list" where
  "UNIQUES_QUERY db =
     [\<lparr> table_schema = tc_table_schema tc, table_name = tc_table_name tc,
        column_name = kcu_column_name kcu, ordinal_position = kcu_ordinal_position kcu,
        constraint_name = tc_constraint_name tc \<rparr>.
      tc \<leftarrow> information_schema_table_constraints db,
      kcu \<leftarrow> information_schema_key_column_usage db,
      tc_constraint_name tc = kcu_constraint_name kcu \<and>
        tc_table_schema tc = kcu_table_schema kcu,
      tc_constraint_type tc = ''UNIQUE'',
      tc_table_schema tc \<notin> set [''pg_catalog'', ''information_schema'']]"

definition UNIQUES_ORDER_BY :: "UniqueRow \<Rightarrow> string \<times> string \<times> string \<times> int" where
  "UNIQUES_ORDER_BY r =
     (table_schema r, table_name r, constraint_name r, ordinal_position r)"

definition FOREIGN_KEYS_QUERY :: "Catalog \<Rightarrow> ForeignKeyRow list" where
  "FOREIGN_KEYS_QUERY db =
     [\<lparr> table_schema = kcu_table_schema fk, table_name = kcu_table_name fk,
        column_name = kcu_column_name fk, ordinal_position = kcu_ordinal_position fk,
        constraint_name = rc_constraint_name rc,
        ref_table_schema = pk_table_schema pk, ref_table_name = pk_table_name pk,
        ref_column_name = pk_column_name pk \<rparr>.
      rc \<leftarrow> information_schema_referential_constraints db,
      fk \<leftarrow> information_schema_key_column_usage db,
      rc_constraint_catalog rc = kcu_constraint_catalog fk \<and>
        rc_constraint_schema rc = kcu_constraint_schema fk \<and>
        rc_constraint_name rc = kcu_constraint_name fk,
      pk \<leftarrow> information_schema_constraint_column_usage db,
      rc_unique_constraint_catalog rc = pk_constraint_catalog pk \<and>
        rc_unique_constraint_schema rc = pk_constraint_schema pk \<and>
        rc_unique_constraint_name rc = pk_constraint_name pk,
      kcu_table_schema fk \<notin> set [''pg_catalog'', ''information_schema'']]"

definition FOREIGN_KEYS_ORDER_BY ::
  "ForeignKeyRow \<Rightarrow> string \<times> string \<times> string \<times> int" where
  "FOREIGN_KEYS_ORDER_BY r =
     (table_schema r, table_name r, constraint_name r, ordinal_position r)"

definition INDEXES_QUERY :: "Catalog \<Rightarrow> IndexRow list" where
  "INDEXES_QUERY db =
     [r. r \<leftarrow> pg_indexes db,
         schemaname r \<notin> set [''pg_catalog'', ''information_schema'']]"

definition INDEXES_ORDER_BY :: "IndexRow \<Rightarrow> string \<times> string" where
  "INDEXES_ORDER_BY r = (schemaname r, tablename r)"

text \<open>
  What the database may answer to a query: the selected rows, each as often as selected,
  in an order that follows the \<open>ORDER BY\<close> key. Rows with equal keys come in any order.
  The order of \<open>string\<close> stands for the collation of the database.
\<close>

definition answers :: "'r list \<Rightarrow> ('r \<Rightarrow> 'k::linorder) \<Rightarrow> 'r list \<Rightarrow> bool" where
  "answers selected order_by rs \<longleftrightarrow> mset rs = mset selected \<and> sorted (map order_by rs)"

fun fulfils_with :: "('r list \<Rightarrow> bool) \<Rightarrow> 'r promise \<Rightarrow> bool" where
  "fulfils_with P (Fulfilled rs) = P rs"
| "fulfils_with P _ = True"

text \<open>A client connected to a database with the catalog \<open>db\<close>.\<close>

definition connected :: "Catalog \<Rightarrow> Client \<Rightarrow> bool" where
  "connected db client \<longleftrightarrow>
     fulfils_with (answers (TABLES_QUERY db) TABLES_ORDER_BY) (query_TABLES client) \<and>
     fulfils_with (answers (COLUMNS_QUERY db) COLUMNS_ORDER_BY) (query_COLUMNS client) \<and>
     fulfils_with (answers (ENUMS_QUERY db) ENUMS_ORDER_BY) (query_ENUMS client) \<and>
     fulfils_with (answers (PRIMARY_KEYS_QUERY db) PRIMARY_KEYS_ORDER_BY)
       (query_PRIMARY_KEYS client) \<and>
     fulfils_with (answers (UNIQUES_QUERY db) UNIQUES_ORDER_BY) (query_UNIQUES client) \<and>
     fulfils_with (answers (FOREIGN_KEYS_QUERY db) FOREIGN_KEYS_ORDER_BY)
       (query_FOREIGN_KEYS client) \<and>
     fulfils_with (answers (INDEXES_QUERY db) INDEXES_ORDER_BY) (query_INDEXES client)"

section \<open>Exclusion rules (lib/exclusion.ts)\<close>

datatype ExclusionRuleType = regex | contains | not_contains

record ExclusionRule =
  rule_id :: string
  rule_type :: ExclusionRuleType
  pattern :: string

text \<open>
  The regular expressions of the JavaScript engine: \<open>new RegExp(pattern)\<close> throws a
  \<open>SyntaxError\<close> on a pattern that is not a regular expression and gives a compiled
  expression otherwise; \<open>test\<close> of a compiled expression returns a boolean.
\<close>

record 'rx RegExp_engine =
  new_RegExp :: "string \<Rightarrow> js_error + 'rx"
  test :: "'rx \<Rightarrow> string \<Rightarrow> bool"

text \<open>\<open>s.includes(p)\<close>: \<open>p\<close> occurs in \<open>s\<close> as a substring.\<close>

fun startsWith :: "string \<Rightarrow> string \<Rightarrow> bool" where
  "startsWith s [] = True"
| "startsWith [] (p # ps) = False"
| "startsWith (c # cs) (p # ps) = (c = p \<and> startsWith cs ps)"

fun str_includes :: "string \<Rightarrow> string \<Rightarrow> bool" where
  "str_includes [] p = (p = [])"
| "str_includes (c # cs) p = (startsWith (c # cs) p \<or> str_includes cs p)"

text \<open>The expression \<open>new RegExp(rule.pattern).test(tableKey)\<close>, which may throw.\<close>

definition regex_test :: "'rx RegExp_engine \<Rightarrow> string \<Rightarrow> string \<Rightarrow> js_error + bool" where
  "regex_test engine p tableKey =
     (case new_RegExp engine p of
        Inl e \<Rightarrow> Inl e
      | Inr rx \<Rightarrow> Inr (test engine rx tableKey))"

text \<open>
  The loop over the rules. The result is \<open>Inl e\<close> when the call throws \<open>e\<close> and
  \<open>Inr b\<close> when it returns \<open>b\<close>. The \<open>try\<close> around the regular expression catches
  what it throws, and the loop goes on to the next rule.
\<close>

fun isTableExcluded ::
  "'rx RegExp_engine \<Rightarrow> string \<Rightarrow> ExclusionRule list \<Rightarrow> js_error + bool" where
  "isTableExcluded engine tableKey [] = Inr False"
| "isTableExcluded engine tableKey (rule # rules) =
     (case rule_type rule of
        regex \<Rightarrow>
          (case regex_test engine (pattern rule) tableKey of
             Inr True \<Rightarrow> Inr True
           | Inr False \<Rightarrow> isTableExcluded engine tableKey rules
           | Inl e \<Rightarrow> isTableExcluded engine tableKey rules)
      | contains \<Rightarrow>
          if str_includes tableKey (pattern rule) then Inr True
          else isTableExcluded engine tableKey rules
      | not_contains \<Rightarrow>
          if \<not> str_includes tableKey (pattern rule) then Inr True
          else isTableExcluded engine tableKey rules)"

text \<open>An item of \<open>filterTables\<close>: any object with a \<open>key\<close>.\<close>

record Keyed =
  key :: string

text \<open>\<open>items.filter(f)\<close> for a callback that may throw: the first throw ends the call.\<close>

fun filter_throwing :: "('a \<Rightarrow> js_error + bool) \<Rightarrow> 'a list \<Rightarrow> js_error + 'a list" where
  "filter_throwing f [] = Inr []"
| "filter_throwing f (x # xs) =
     (case f x of
        Inl e \<Rightarrow> Inl e
      | Inr keep \<Rightarrow>
          (case filter_throwing f xs of
             Inl e \<Rightarrow> Inl e
           | Inr ys \<Rightarrow> Inr (if keep then x # ys else ys)))"

definition filterTables ::
  "'rx RegExp_engine \<Rightarrow> 'a Keyed_scheme list \<Rightarrow> ExclusionRule list \<Rightarrow>
     js_error + 'a Keyed_scheme list" where
  "filterTables engine items rules =
     (if length rules = 0 then Inr items
      else filter_throwing
             (\<lambda>item. case isTableExcluded engine (key item) rules of
                       Inl e \<Rightarrow> Inl e
                     | Inr excluded \<Rightarrow> Inr (\<not> excluded)) items)"

text \<open>A rule of type \<open>regex\<close> whose pattern the engine refuses.\<close>

definition invalid_regex :: "'rx RegExp_engine \<Rightarrow> ExclusionRule \<Rightarrow> bool" where
  "invalid_regex engine rule \<longleftrightarrow>
     rule_type rule = regex \<and> isl (new_RegExp engine (pattern rule))"

section \<open>The schema cache file (lib/cache.ts)\<close>

text \<open>The values \<open>JSON.parse\<close> returns.\<close>

datatype json =
  JNull
| JBool bool
| JNumber real
| JString string
| JArray "json list"
| JObject "(string \<times> json) list"

text \<open>
  The cache file as \<open>fs.existsSync\<close> and \<open>fs.readFileSync\<close> find it: absent, present
  but failing to be read, or present with a text.
\<close>

datatype cache_file = Absent | Unreadable js_error | Content string

text \<open>The condition \<open>!data\<close>: \<open>null\<close>, \<open>false\<close>, \<open>0\<close> and the empty string are falsy.\<close>

fun falsy :: "json \<Rightarrow> bool" where
  "falsy JNull = True"
| "falsy (JBool b) = (\<not> b)"
| "falsy (JNumber n) = (n = 0)"
| "falsy (JString s) = (s = [])"
| "falsy (JArray xs) = False"
| "falsy (JObject ps) = False"

text \<open>
  The property read \<open>data.tables\<close> of a value that is not \<open>null\<close>: the property of an
  object that has it (an object holds each key once), and \<open>undefined\<close> otherwise.
\<close>

datatype js_value = Undefined | Value json

fun get_tables :: "json \<Rightarrow> js_value" where
  "get_tables (JObject ps) =
     (case map_of ps ''tables'' of None \<Rightarrow> Undefined | Some v \<Rightarrow> Value v)"
| "get_tables _ = Undefined"

fun typeof :: "js_value \<Rightarrow> string" where
  "typeof Undefined = ''undefined''"
| "typeof (Value JNull) = ''object''"
| "typeof (Value (JBool b)) = ''boolean''"
| "typeof (Value (JNumber n)) = ''number''"
| "typeof (Value (JString s)) = ''string''"
| "typeof (Value (JArray xs)) = ''object''"
| "typeof (Value (JObject ps)) = ''object''"

text \<open>
  The body of the \<open>try\<close> block: \<open>Inl e\<close> when it throws \<open>e\<close>, \<open>Inr None\<close> when it
  returns \<open>null\<close>, \<open>Inr (Some data)\<close> when it returns the parsed value. \<open>JSON_parse\<close>
  is the parser of the engine, which throws on a text that is not JSON.
\<close>

definition readSchemaCache_try ::
  "(string \<Rightarrow> js_error + json) \<Rightarrow> cache_file \<Rightarrow> js_error + json option" where
  "readSchemaCache_try JSON_parse file =
     (case file of
        Absent \<Rightarrow> Inr None
      | Unreadable e \<Rightarrow> Inl e
      | Content raw \<Rightarrow>
          (case JSON_parse raw of
             Inl e \<Rightarrow> Inl e
           | Inr data \<Rightarrow>
               if falsy data \<or> typeof (get_tables data) \<noteq> ''object'' then Inr None
               else Inr (Some data)))"

definition readSchemaCache ::
  "(string \<Rightarrow> js_error + json) \<Rightarrow> cache_file \<Rightarrow> js_error + json option" where
  "readSchemaCache JSON_parse file =
     (case readSchemaCache_try JSON_parse file of
        Inl e \<Rightarrow> Inr None
      | Inr result \<Rightarrow> Inr result)"

text \<open>A cache file whose JSON text has \<open>null\<close> for \<open>tables\<close>.\<close>

definition tables_null_text :: string where
  \<open>tables_null_text = ''{"tables": null}''\<close>

definition tables_null :: json where
  "tables_null = JObject [(''tables'', JNull)]"

text \<open>A parser that knows this one text.\<close>

definition parse_tables_null :: "string \<Rightarrow> js_error + json" where
  "parse_tables_null raw =
     (if raw = tables_null_text then Inr tables_null
      else Inl (Error ''Unexpected token''))"

section \<open>The sync command (sync-schema.tsx)\<close>

datatype SyncState =
  State_checking | State_no_credentials | State_loading | State_success | State_error

datatype kind = table | view

record TableCacheEntry =
  ddl :: string
  schema :: "string option"
  entry_type :: kind

text \<open>
  A JavaScript object used as a dictionary (\<open>Record<string, T>\<close>), and a \<open>Map\<close>: the
  entries in insertion order, each key once.
\<close>

type_synonym 'v entries = "(string \<times> 'v) list"

record SchemaCache =
  cache_tables :: "TableCacheEntry entries"
  cache_enums :: "string option"

text \<open>The assignment \<open>obj[k] = v\<close>.\<close>

fun assign :: "'v entries \<Rightarrow> string \<Rightarrow> 'v \<Rightarrow> 'v entries" where
  "assign [] k v = [(k, v)]"
| "assign ((k', v') # ps) k v = (if k' = k then (k, v) # ps else (k', v') # assign ps k v)"

text \<open>\<open>s.split(sep)\<close> for a separator of one character: never an empty array.\<close>

fun split :: "string \<Rightarrow> char \<Rightarrow> string list" where
  "split [] sep = [[]]"
| "split (c # cs) sep =
     (if c = sep then [] # split cs sep
      else (case split cs sep of [] \<Rightarrow> [[c]] | w # ws \<Rightarrow> (c # w) # ws))"

text \<open>What the command reads of the result of \<open>buildSchemaDdl\<close>: two \<open>Map\<close>s.\<close>

record SchemaDdl =
  tableDdls :: "string entries"
  tableTypes :: "kind entries"

text \<open>
  The entry stored under \<open>key\<close>: \<open>const [schema] = key.split(".")\<close> takes the first
  element of the array (\<open>undefined\<close>, here \<open>None\<close>, if there were none), and
  \<open>tableTypes.get(key) ?? "table"\<close> falls back to \<open>table\<close>.
\<close>

definition cache_entry :: "kind entries \<Rightarrow> string \<Rightarrow> string \<Rightarrow> TableCacheEntry" where
  "cache_entry types k d =
     \<lparr> ddl = d,
       schema = (case split k (CHR ''.'') of [] \<Rightarrow> None | first # rest \<Rightarrow> Some first),
       entry_type = (case map_of types k of None \<Rightarrow> table | Some t \<Rightarrow> t) \<rparr>"

text \<open>The loop \<open>for (const [key, ddl] of tableDdls)\<close>, with the object \<open>tables\<close> so far as \<open>obj\<close>.\<close>

fun cache_loop ::
  "kind entries \<Rightarrow> string entries \<Rightarrow> TableCacheEntry entries \<Rightarrow> TableCacheEntry entries" where
  "cache_loop types [] obj = obj"
| "cache_loop types ((k, d) # rest) obj =
     cache_loop types rest (assign obj k (cache_entry types k d))"

definition build_cache :: "SchemaDdl \<Rightarrow> SchemaCache" where
  "build_cache out =
     \<lparr> cache_tables = cache_loop (tableTypes out) (tableDdls out) [], cache_enums = None \<rparr>"

text \<open>
  \<open>writeSchemaCache\<close>: \<open>mkdirSync\<close> and \<open>writeFileSync\<close> either go through, and the file
  holds the JSON text of the cache, or throw, here before a byte is written.
\<close>

datatype fs_result = Done | Fails js_error

definition writeSchemaCache ::
  "(SchemaCache \<Rightarrow> string) \<Rightarrow> fs_result \<Rightarrow> SchemaCache \<Rightarrow> js_error + cache_file" where
  "writeSchemaCache JSON_stringify fs cache =
     (case fs of
        Fails e \<Rightarrow> Inl e
      | Done \<Rightarrow> Inr (Content (JSON_stringify cache)))"

text \<open>Decimal digits of a number, as a template string prints it.\<close>

definition digit :: "nat \<Rightarrow> char" where
  "digit n = ''0123456789'' ! n"

fun decimal :: "nat \<Rightarrow> string" where
  "decimal n = (if n < 10 then [digit n] else decimal (n div 10) @ [digit (n mod 10)])"

declare decimal.simps [simp del]

datatype ToastStyle = Success | Failure

record Toast =
  style :: ToastStyle
  title :: string
  message :: string

text \<open>
  What one run of the command's effect meets: the stored connection string, whether
  \<open>parseConnectionConfig\<close> throws on it, how \<open>client.connect()\<close> settles, the promises
  of the queries, \<open>buildSchemaDdl\<close> of lib/ddl-builder as \<open>ddl_builder\<close>, \<open>JSON.stringify\<close>, the file
  system, and the checkpoint from which \<open>cancelled\<close> is true (the view was unmounted),
  if any. The checkpoints are the reads of \<open>cancelled\<close>: 0 after
  \<open>getConnectionString\<close>, 1 after \<open>connect\<close> settles, 2 after \<open>fetchSchemaData\<close>
  settles.
\<close>

datatype connect_result = Never | Rejects js_error | Resolves

record Env =
  getConnectionString :: string
  parseConnectionConfig :: "js_error option"
  connect :: connect_result
  pg_client :: Client
  ddl_builder :: "SchemaData \<Rightarrow> SchemaDdl"
  JSON_stringify :: "SchemaCache \<Rightarrow> string"
  fs :: fs_result
  unmounted_from :: "nat option"

text \<open>
  What the command changes: its React state, the toasts shown, the commands launched,
  the cache file, and the number of calls of \<open>writeSchemaCache\<close>.
\<close>

record Sync =
  state :: SyncState
  errorMessage :: "string option"
  tableCount :: nat
  toasts :: "Toast list"
  launched :: "string list"
  cache :: cache_file
  writeSchemaCache_calls :: nat

definition cancelled :: "Env \<Rightarrow> nat \<Rightarrow> bool" where
  "cancelled env checkpoint =
     (case unmounted_from env of None \<Rightarrow> False | Some t \<Rightarrow> t \<le> checkpoint)"

text \<open>The \<open>catch\<close> block, entered at a checkpoint with the thrown value.\<close>

definition catch_block :: "Env \<Rightarrow> nat \<Rightarrow> js_error \<Rightarrow> Sync \<Rightarrow> Sync" where
  "catch_block env checkpoint err w =
     (if cancelled env checkpoint then w
      else w \<lparr> errorMessage := Some (error_text err), state := State_error,
               toasts := toasts w @
                 [\<lparr> style = Failure, title = ''Sync failed'', message = error_text err \<rparr>] \<rparr>)"

text \<open>
  The \<open>try\<close> block. \<open>writeSchemaCache\<close> is synchronous: a throw of it enters the
  \<open>catch\<close> block at checkpoint 2 still. The \<open>finally\<close> block ends the client and
  changes nothing here.
\<close>

definition try_block :: "Env \<Rightarrow> Sync \<Rightarrow> Sync" where
  "try_block env w =
     (case connect env of
        Never \<Rightarrow> w
      | Rejects err \<Rightarrow> catch_block env 1 err w
      | Resolves \<Rightarrow>
          if cancelled env 1 then w
          else
            (case fetchSchemaData (pg_client env) of
               None \<Rightarrow> w
             | Some (Inl err) \<Rightarrow> catch_block env 2 err w
             | Some (Inr data) \<Rightarrow>
                 if cancelled env 2 then w
                 else
                   let built = build_cache (ddl_builder env data);
                       w' = w \<lparr> writeSchemaCache_calls := writeSchemaCache_calls w + 1 \<rparr>
                   in (case writeSchemaCache (JSON_stringify env) (fs env) built of
                         Inl err \<Rightarrow> catch_block env 2 err w'
                       | Inr written \<Rightarrow>
                           if cancelled env 2 then w' \<lparr> cache := written \<rparr>
                           else w' \<lparr> cache := written,
                                    tableCount := length (cache_tables built),
                                    state := State_success,
                                    toasts := toasts w @
                                      [\<lparr> style = Success, title = ''Schema synced'',
                                         message = decimal (length (cache_tables built)) @
                                           '' tables cached'' \<rparr>] \<rparr>)))"

text \<open>
  The effect of the command. When \<open>parseConnectionConfig\<close> throws, outside the
  \<open>try\<close>, the inner promise rejects unhandled and the state stays \<open>loading\<close>.
\<close>

definition Command :: "Env \<Rightarrow> Sync \<Rightarrow> Sync" where
  "Command env w =
     (if cancelled env 0 then w
      else if getConnectionString env = [] then
        w \<lparr> state := State_no_credentials, launched := launched w @ [''set-credentials''] \<rparr>
      else
        (case parseConnectionConfig env of
           Some err \<Rightarrow> w \<lparr> state := State_loading \<rparr>
         | None \<Rightarrow> try_block env (w \<lparr> state := State_loading \<rparr>)))"

definition initial :: "cache_file \<Rightarrow> Sync" where
  "initial f = \<lparr> state = State_checking, errorMessage = None, tableCount = 0, toasts = [],
     launched = [], cache = f, writeSchemaCache_calls = 0 \<rparr>"

text \<open>A sync is under way: the command got a connection string and made a client.\<close>

definition sync_started :: "Env \<Rightarrow> bool" where
  "sync_started env \<longleftrightarrow>
     \<not> cancelled env 0 \<and> getConnectionString env \<noteq> [] \<and> parseConnectionConfig env = None"

text \<open>
  Connecting, or a catalog query, fails with \<open>err\<close>; the checkpoint at which the
  \<open>catch\<close> block is entered.
\<close>

definition connect_or_query_fails :: "Env \<Rightarrow> js_error \<Rightarrow> bool" where
  "connect_or_query_fails env err \<longleftrightarrow>
     connect env = Rejects err \<or>
     connect env = Resolves \<and> \<not> cancelled env 1 \<and>
       fetchSchemaData (pg_client env) = Some (Inl err)"

definition failure_checkpoint :: "Env \<Rightarrow> nat" where
  "failure_checkpoint env = (case connect env of Rejects err \<Rightarrow> 1 | _ \<Rightarrow> 2)"

section \<open>The DDL synthesizer (lib/ddl-builder)\<close>

text \<open>
  Modelled from the spec: \<open>buildSchemaDdl\<close> and its helpers, of lib/ddl-builder, which
  is not among the sources. The definitions of this section follow the nine steps of
  the algorithm of the specification (section 4.2) and its determinism requirement
  (every group is sorted before it is emitted). The specification leaves the keywords
  and separators of the text open; they are fixed here.
\<close>

text \<open>
  Modelled from the spec: the result of \<open>buildSchemaDdl\<close> (section 6), the mapping from
  qualified relation name to DDL text and the mapping to the kind.
\<close>

record DdlMappings =
  ddlByRelation :: "string \<rightharpoonup> string"
  kindByRelation :: "string \<rightharpoonup> kind"

text \<open>Modelled from the spec: the qualified name \<open><schema>.<relation>\<close>, the key of every entity.\<close>

definition qualified_name :: "string \<Rightarrow> string \<Rightarrow> string" where
  "qualified_name s n = s @ ''.'' @ n"

text \<open>Modelled from the spec: the qualified name of the relation a row belongs to.\<close>

definition owner :: "'a RelationRow_scheme \<Rightarrow> string" where
  "owner r = qualified_name (table_schema r) (table_name r)"

text \<open>Modelled from the spec: the qualified name of the relation an index row belongs to.\<close>

definition index_owner :: "IndexRow \<Rightarrow> string" where
  "index_owner i = qualified_name (schemaname i) (tablename i)"

text \<open>Modelled from the spec: the texts of a list joined by a separator.\<close>

fun join :: "string \<Rightarrow> string list \<Rightarrow> string" where
  "join sep [] = []"
| "join sep [x] = x"
| "join sep (x # y # ys) = x @ sep @ join sep (y # ys)"

text \<open>Modelled from the spec: a label quoted as a literal.\<close>

definition quoted :: "string \<Rightarrow> string" where
  "quoted s = CHR 0x27 # s @ [CHR 0x27]"

text \<open>Modelled from the spec: a length, precision or scale in decimal digits.\<close>

definition number :: "int \<Rightarrow> string" where
  "number i = (if i < 0 then ''-'' @ decimal (nat (- i)) else decimal (nat i))"

text \<open>
  Modelled from the spec: step 1, the labels of the enum type \<open>(s, t)\<close> in sort order; a
  type is a known enum when it has a label.
\<close>

definition enum_labels :: "EnumTypeRow list \<Rightarrow> string \<Rightarrow> string \<Rightarrow> string list" where
  "enum_labels es s t =
     map enumlabel (sort_key enumsortorder [e \<leftarrow> es. nspname e = s \<and> typname e = t])"

text \<open>
  Modelled from the spec: step 2, the columns of the relation with the key \<open>k\<close>, sorted
  by ordinal position.
\<close>

definition relation_columns :: "ColumnRow list \<Rightarrow> string \<Rightarrow> ColumnRow list" where
  "relation_columns cs k = sort_key ordinal_position [c \<leftarrow> cs. owner c = k]"

text \<open>
  Modelled from the spec: step 3, the declared type name with the character length, or
  with the numeric precision and, with it only, the scale.
\<close>

definition declared_type :: "ColumnRow \<Rightarrow> string" where
  "declared_type c =
     data_type c @
     (case character_maximum_length c of
        Some n \<Rightarrow> ''('' @ number n @ '')''
      | None \<Rightarrow>
          (case numeric_precision c of
             None \<Rightarrow> []
           | Some p \<Rightarrow>
               (case numeric_scale c of
                  None \<Rightarrow> ''('' @ number p @ '')''
                | Some sc \<Rightarrow> ''('' @ number p @ '','' @ number sc @ '')'')))"

text \<open>
  Modelled from the spec: step 3, the type text of a column: a known enum as its quoted
  labels in sort order with the type name; an array type, whose user-defined-type name
  starts with the marker \<open>_\<close>, as the base type and \<open>[]\<close>; else the declared type.
\<close>

definition column_type :: "EnumTypeRow list \<Rightarrow> ColumnRow \<Rightarrow> string" where
  "column_type es c =
     (if enum_labels es (udt_schema c) (udt_name c) \<noteq> [] then
        join '' | '' (map quoted (enum_labels es (udt_schema c) (udt_name c))) @
          '' /* '' @ udt_name c @ '' */''
      else if take 1 (udt_name c) = ''_'' then drop 1 (udt_name c) @ ''[]''
      else declared_type c)"

text \<open>
  Modelled from the spec: step 3, the column definition, with the not-null marker when
  the nullable flag is \<open>NO\<close> and the default expression verbatim.
\<close>

definition column_definition :: "EnumTypeRow list \<Rightarrow> ColumnRow \<Rightarrow> string" where
  "column_definition es c =
     column_name c @ '' '' @ column_type es c @
     (if is_nullable c = ''NO'' then '' not null'' else []) @
     (case column_default c of None \<Rightarrow> [] | Some d \<Rightarrow> '' default '' @ d)"

text \<open>
  Modelled from the spec: steps 4 to 6, the constraint names among the rows of a
  relation, in order (the keys of an ordered map, section 9).
\<close>

definition constraint_names :: "'a ConstraintRow_scheme list \<Rightarrow> string \<Rightarrow> string list" where
  "constraint_names rs k = sort (remdups (map constraint_name [r \<leftarrow> rs. owner r = k]))"

text \<open>
  Modelled from the spec: steps 4 to 6, the rows of one constraint of a relation, sorted
  by ordinal position.
\<close>

definition constraint_group ::
  "'a ConstraintRow_scheme list \<Rightarrow> string \<Rightarrow> string \<Rightarrow> 'a ConstraintRow_scheme list" where
  "constraint_group rs k n =
     sort_key ordinal_position [r \<leftarrow> rs. owner r = k \<and> constraint_name r = n]"

text \<open>Modelled from the spec: steps 4 and 5, a named clause listing the columns of a group.\<close>

definition key_clause :: "string \<Rightarrow> string \<Rightarrow> 'a ConstraintRow_scheme list \<Rightarrow> string" where
  "key_clause what n g =
     ''constraint '' @ n @ '' '' @ what @ '' ('' @ join '', '' (map column_name g) @ '')''"

text \<open>Modelled from the spec: step 4, one primary-key clause for each group.\<close>

definition primary_key_clauses :: "PrimaryKeyRow list \<Rightarrow> string \<Rightarrow> string list" where
  "primary_key_clauses rs k =
     map (\<lambda>n. key_clause ''primary key'' n (constraint_group rs k n)) (constraint_names rs k)"

text \<open>Modelled from the spec: step 5, one unique clause for each group.\<close>

definition unique_clauses :: "UniqueRow list \<Rightarrow> string \<Rightarrow> string list" where
  "unique_clauses rs k =
     map (\<lambda>n. key_clause ''unique'' n (constraint_group rs k n)) (constraint_names rs k)"

text \<open>
  Modelled from the spec: step 6, a foreign-key clause pairs the local columns with the
  referenced columns by position; the referenced relation is written with its schema
  when that differs from the schema of the local relation; a group whose two column
  lists differ in length (or with no row) gives no clause.
\<close>

definition foreign_key_clause :: "string \<Rightarrow> string \<Rightarrow> ForeignKeyRow list \<Rightarrow> string option" where
  "foreign_key_clause local_schema n g =
     (case g of
        [] \<Rightarrow> None
      | r # rest \<Rightarrow>
          if length (map column_name g) \<noteq> length (map ref_column_name g) then None
          else Some
            (''constraint '' @ n @ '' foreign key ('' @ join '', '' (map column_name g) @
             '') references '' @
             (if ref_table_schema r \<noteq> local_schema then ref_table_schema r @ ''.'' else []) @
             ref_table_name r @ '' ('' @ join '', '' (map ref_column_name g) @ '')''))"

text \<open>
  Modelled from the spec: step 6, the foreign-key clauses of a relation, the groups
  without a clause left out.
\<close>

definition foreign_key_clauses :: "ForeignKeyRow list \<Rightarrow> TableRow \<Rightarrow> string list" where
  "foreign_key_clauses rs r =
     List.map_filter
       (\<lambda>n. foreign_key_clause (table_schema r) n (constraint_group rs (owner r) n))
       (constraint_names rs (owner r))"

text \<open>
  Modelled from the spec: step 8, the index definitions of a relation, verbatim. The
  specification names no order for them and asks for every group to be sorted: they
  are sorted by index name, then text.
\<close>

definition index_statements :: "IndexRow list \<Rightarrow> string \<Rightarrow> string list" where
  "index_statements ixs k =
     map snd (sort (map (\<lambda>i. (indexname i, indexdef i)) [i \<leftarrow> ixs. index_owner i = k]))"

text \<open>Modelled from the spec: step 9, the kind of a relation.\<close>

definition relation_kind :: "TableRow \<Rightarrow> kind" where
  "relation_kind r = (if table_type r = ''BASE TABLE'' then table else view)"

text \<open>
  Modelled from the spec: step 7, the statement of a relation from its column
  definitions and constraint clauses (a view carries the column list only), followed
  by the index definitions as trailing statements.
\<close>

definition statement :: "kind \<Rightarrow> string \<Rightarrow> string list \<Rightarrow> string list \<Rightarrow> string list \<Rightarrow> string" where
  "statement kd k defs clauses ixs =
     (case kd of
        table \<Rightarrow> ''create table '' @ k @ '' ('' @ join '', '' (defs @ clauses) @ '');''
      | view \<Rightarrow> ''create view '' @ k @ '' ('' @ join '', '' defs @ '');'') @
     concat (map (\<lambda>d. [CHR 0x0A] @ d @ '';'') ixs)"

text \<open>Modelled from the spec: steps 2 and 3, the column definitions of a relation in order.\<close>

definition column_definitions :: "SchemaData \<Rightarrow> string \<Rightarrow> string list" where
  "column_definitions s k = map (column_definition (enums s)) (relation_columns (columns s) k)"

text \<open>Modelled from the spec: steps 4 to 6, the constraint clauses of a relation.\<close>

definition constraint_clauses :: "SchemaData \<Rightarrow> TableRow \<Rightarrow> string list" where
  "constraint_clauses s r =
     primary_key_clauses (primaryKeys s) (owner r) @ unique_clauses (uniques s) (owner r) @
     foreign_key_clauses (foreignKeys s) r"

text \<open>Modelled from the spec: steps 7 and 8, the DDL text of a relation of the snapshot.\<close>

definition relation_ddl :: "SchemaData \<Rightarrow> TableRow \<Rightarrow> string" where
  "relation_ddl s r =
     statement (relation_kind r) (owner r) (column_definitions s (owner r))
       (constraint_clauses s r) (index_statements (indexes s) (owner r))"

text \<open>
  Modelled from the spec: \<open>buildSchemaDdl\<close>, the mapping from the qualified name of
  every relation to its DDL text, and the mapping to its kind.
\<close>

definition buildSchemaDdl :: "SchemaData \<Rightarrow> DdlMappings" where
  "buildSchemaDdl s =
     \<lparr> ddlByRelation = map_of (map (\<lambda>r. (owner r, relation_ddl s r)) (tables s)),
       kindByRelation = map_of (map (\<lambda>r. (owner r, relation_kind r)) (tables s)) \<rparr>"







section \<open>A small database\<close>

text \<open>
  One table \<open>public.users\<close> with the columns \<open>id\<close> and \<open>email\<close>, a primary key, an enum
  type and two indexes, beside a table of \<open>pg_catalog\<close>.
\<close>

definition users_table :: TableRow where
  "users_table = \<lparr> table_schema = ''public'', table_name = ''users'',
     table_type = ''BASE TABLE'' \<rparr>"

definition pg_class_table :: TableRow where
  "pg_class_table = \<lparr> table_schema = ''pg_catalog'', table_name = ''pg_class'',
     table_type = ''BASE TABLE'' \<rparr>"

definition users_id :: ColumnRow where
  "users_id = \<lparr> table_schema = ''public'', table_name = ''users'', column_name = ''id'',
     ordinal_position = 1, data_type = ''integer'', udt_schema = ''pg_catalog'',
     udt_name = ''int4'', is_nullable = ''NO'', column_default = None,
     character_maximum_length = None, numeric_precision = Some 32,
     numeric_scale = Some 0 \<rparr>"

definition users_email :: ColumnRow where
  "users_email = \<lparr> table_schema = ''public'', table_name = ''users'',
     column_name = ''email'', ordinal_position = 2, data_type = ''character varying'',
     udt_schema = ''pg_catalog'', udt_name = ''varchar'', is_nullable = ''YES'',
     column_default = None, character_maximum_length = Some 100,
     numeric_precision = None, numeric_scale = None \<rparr>"

definition status_active :: EnumTypeRow where
  "status_active = \<lparr> nspname = ''public'', typname = ''status'', enumlabel = ''active'',
     enumsortorder = 0 \<rparr>"

definition users_pkey_id :: PrimaryKeyRow where
  "users_pkey_id = \<lparr> table_schema = ''public'', table_name = ''users'',
     column_name = ''id'', ordinal_position = 1, constraint_name = ''users_pkey'' \<rparr>"

definition users_pkey_index :: IndexRow where
  "users_pkey_index = \<lparr> schemaname = ''public'', tablename = ''users'',
     indexname = ''users_pkey'',
     indexdef = ''CREATE UNIQUE INDEX users_pkey ON public.users USING btree (id)'' \<rparr>"

definition users_email_index :: IndexRow where
  "users_email_index = \<lparr> schemaname = ''public'', tablename = ''users'',
     indexname = ''users_email_idx'',
     indexdef = ''CREATE INDEX users_email_idx ON public.users USING btree (email)'' \<rparr>"

definition pg_class_index :: IndexRow where
  "pg_class_index = \<lparr> schemaname = ''pg_catalog'', tablename = ''pg_class'',
     indexname = ''pg_class_oid_index'',
     indexdef = ''CREATE UNIQUE INDEX pg_class_oid_index ON pg_catalog.pg_class USING btree (oid)'' \<rparr>"

definition example_db :: Catalog where
  "example_db = \<lparr>
     information_schema_tables = [pg_class_table, users_table],
     information_schema_columns = [users_email, users_id],
     pg_type = [\<lparr> t_oid = 16390, t_typname = ''status'', t_typtype = ''e'',
                   t_typnamespace = 2200 \<rparr>],
     pg_enum = [\<lparr> e_enumtypid = 16390, e_enumlabel = ''active'', e_enumsortorder = 0 \<rparr>],
     pg_namespace = [\<lparr> n_oid = 11, n_nspname = ''pg_catalog'' \<rparr>,
                     \<lparr> n_oid = 2200, n_nspname = ''public'' \<rparr>],
     information_schema_table_constraints =
       [\<lparr> tc_constraint_name = ''users_pkey'', tc_table_schema = ''public'',
          tc_table_name = ''users'', tc_constraint_type = ''PRIMARY KEY'' \<rparr>],
     information_schema_key_column_usage =
       [\<lparr> kcu_constraint_catalog = ''app'', kcu_constraint_schema = ''public'',
          kcu_constraint_name = ''users_pkey'', kcu_table_schema = ''public'',
          kcu_table_name = ''users'', kcu_column_name = ''id'',
          kcu_ordinal_position = 1 \<rparr>],
     information_schema_referential_constraints = [],
     information_schema_constraint_column_usage = [],
     pg_indexes = [pg_class_index, users_email_index, users_pkey_index] \<rparr>"

text \<open>
  A snapshot the database may answer with: the two indexes of \<open>public.users\<close> come with
  \<open>users_pkey\<close> first.
\<close>

definition example_data :: SchemaData where
  "example_data = \<lparr> tables = [users_table], columns = [users_id, users_email],
     enums = [status_active], primaryKeys = [users_pkey_id], uniques = [],
     foreignKeys = [], indexes = [users_pkey_index, users_email_index] \<rparr>"

definition example_client :: Client where
  "example_client = \<lparr>
     query_TABLES = Fulfilled (tables example_data),
     query_COLUMNS = Fulfilled (columns example_data),
     query_ENUMS = Fulfilled (enums example_data),
     query_PRIMARY_KEYS = Fulfilled (primaryKeys example_data),
     query_UNIQUES = Fulfilled (uniques example_data),
     query_FOREIGN_KEYS = Fulfilled (foreignKeys example_data),
     query_INDEXES = Fulfilled (indexes example_data) \<rparr>"

text \<open>The same connection when the index query is refused.\<close>

definition failing_client :: Client where
  "failing_client = example_client
     \<lparr> query_INDEXES := Rejected 7 (Error ''permission denied for view pg_indexes'') \<rparr>"

text \<open>Orders of the index rows with a secondary key after schema and relation.\<close>

definition by_index_name :: "IndexRow \<Rightarrow> string \<times> string \<times> string" where
  "by_index_name r = (schemaname r, tablename r, indexname r)"

definition by_index_definition :: "IndexRow \<Rightarrow> string \<times> string \<times> string" where
  "by_index_definition r = (schemaname r, tablename r, indexdef r)"

section \<open>Rules and an engine to try them on\<close>

text \<open>
  An engine that refuses the pattern \<open>(\<close>, as JavaScript does, and reads every other
  pattern as plain text.
\<close>

definition plain_engine :: "string RegExp_engine" where
  "plain_engine = \<lparr>
     new_RegExp = (\<lambda>p. if p = ''(''
        then Inl (Error ''Invalid regular expression: /(/: Unterminated group'')
        else Inr p),
     test = (\<lambda>rx s. str_includes s rx) \<rparr>"

definition unterminated_rule :: ExclusionRule where
  "unterminated_rule = \<lparr> rule_id = ''rule_1'', rule_type = regex, pattern = ''('' \<rparr>"

definition hdb_rule :: ExclusionRule where
  "hdb_rule = \<lparr> rule_id = ''rule_2'', rule_type = contains, pattern = ''hdb_catalog'' \<rparr>"

definition users_item :: Keyed where
  "users_item = \<lparr> key = ''public.users'' \<rparr>"

section \<open>Runs of the sync command\<close>

definition example_build :: "SchemaData \<Rightarrow> SchemaDdl" where
  "example_build data = \<lparr>
     tableDdls = map (\<lambda>r. (table_schema r @ ''.'' @ table_name r,
                           ''create table '' @ table_schema r @ ''.'' @ table_name r))
                   (tables data),
     tableTypes = map (\<lambda>r. (table_schema r @ ''.'' @ table_name r,
                            if table_type r = ''BASE TABLE'' then table else view))
                    (tables data) \<rparr>"

definition example_stringify :: "SchemaCache \<Rightarrow> string" where
  "example_stringify c = concat (map (\<lambda>(k, e). k @ '': '' @ ddl e @ ''; '') (cache_tables c))"

definition example_env :: Env where
  "example_env = \<lparr>
     getConnectionString = ''postgresql://app@localhost:5432/app'',
     parseConnectionConfig = None,
     connect = Resolves,
     pg_client = example_client,
     ddl_builder = example_build,
     JSON_stringify = example_stringify,
     fs = Done,
     unmounted_from = None \<rparr>"

text \<open>The server refuses the connection.\<close>

definition refused_env :: Env where
  "refused_env = example_env \<lparr> connect := Rejects (Error ''connect ECONNREFUSED'') \<rparr>"

text \<open>The same, after the view of the command was closed while it was connecting.\<close>

definition closed_env :: Env where
  "closed_env = refused_env \<lparr> unmounted_from := Some 1 \<rparr>"

text \<open>The cache file of an earlier sync.\<close>

definition earlier_cache :: cache_file where
  "earlier_cache = Content ''public.orders: create table public.orders; ''"

section \<open>The small database with its rows in another order\<close>

definition shuffled_data :: SchemaData where
  "shuffled_data = example_data \<lparr> columns := [users_email, users_id],
     indexes := [users_email_index, users_pkey_index] \<rparr>"

section \<open>A composite foreign key\<close>









section \<open>Two relations with one qualified name\<close>








section \<open>Properties of fetchSchemaData\<close>

lemma rows_eq_Some: "rows p = Some rs \<longleftrightarrow> p = Fulfilled rs"
  by (cases p) auto

lemma rejection_eq_Nil: "rejection p = [] \<longleftrightarrow> \<not> is_rejected p"
  by (cases p) auto

lemma rejections_eq_Nil: "rejections client = [] \<longleftrightarrow> \<not> some_query_failed client"
  by (simp add: rejections_def some_query_failed_def rejection_eq_Nil)

lemma earliest_mem: "earliest r rs \<in> set (r # rs)"
  by (induction rs arbitrary: r) (auto split: if_splits)

lemma all_rows_eq_Some:
  "all_rows client = Some data \<longleftrightarrow>
     query_TABLES client = Fulfilled (tables data) \<and>
     query_COLUMNS client = Fulfilled (columns data) \<and>
     query_ENUMS client = Fulfilled (enums data) \<and>
     query_PRIMARY_KEYS client = Fulfilled (primaryKeys data) \<and>
     query_UNIQUES client = Fulfilled (uniques data) \<and>
     query_FOREIGN_KEYS client = Fulfilled (foreignKeys data) \<and>
     query_INDEXES client = Fulfilled (indexes data)"
proof -
  obtain t c e p u f i where data: "data = \<lparr> tables = t, columns = c, enums = e,
      primaryKeys = p, uniques = u, foreignKeys = f, indexes = i \<rparr>"
    by (cases data) auto
  show ?thesis
    unfolding all_rows_def data
    by (auto simp: bind_eq_Some_conv rows_eq_Some)
qed

lemma fetchSchemaData_failed:
  assumes "some_query_failed client"
  shows "\<exists>e \<in> query_errors client. fetchSchemaData client = Some (Inl e)"
proof -
  from assms obtain r rs where rs: "rejections client = r # rs"
    by (cases "rejections client") (auto simp: rejections_eq_Nil)
  have "earliest r rs \<in> set (rejections client)"
    unfolding rs by (rule earliest_mem)
  then have "snd (earliest r rs) \<in> query_errors client"
    unfolding query_errors_def by (rule imageI)
  moreover have "fetchSchemaData client = Some (Inl (snd (earliest r rs)))"
    by (simp add: fetchSchemaData_def rs)
  ultimately show ?thesis by blast
qed

lemma fetchSchemaData_returns:
  "fetchSchemaData client = Some (Inr data) \<longleftrightarrow>
     \<not> some_query_failed client \<and> all_rows client = Some data"
  by (cases "rejections client")
     (auto simp: fetchSchemaData_def rejections_eq_Nil [symmetric])

text \<open>
  C1. When one of the seven catalog queries fails, \<open>fetchSchemaData\<close> fails with a single
  error, the one of a failed query; and whenever it returns a snapshot, each of the seven
  queries has succeeded and the snapshot holds the rows of all seven: no snapshot with a
  collection missing is ever returned.
\<close>

theorem fetchSchemaData_all_or_fail:
  "(some_query_failed client \<longrightarrow>
      (\<exists>e \<in> query_errors client. fetchSchemaData client = Some (Inl e))) \<and>
   (fetchSchemaData client = Some (Inr data) \<longrightarrow>
      \<not> some_query_failed client \<and>
      query_TABLES client = Fulfilled (tables data) \<and>
      query_COLUMNS client = Fulfilled (columns data) \<and>
      query_ENUMS client = Fulfilled (enums data) \<and>
      query_PRIMARY_KEYS client = Fulfilled (primaryKeys data) \<and>
      query_UNIQUES client = Fulfilled (uniques data) \<and>
      query_FOREIGN_KEYS client = Fulfilled (foreignKeys data) \<and>
      query_INDEXES client = Fulfilled (indexes data))"
  using fetchSchemaData_failed [of client] fetchSchemaData_returns [of client data]
    all_rows_eq_Some [of client data]
  by blast

lemmas example_defs = example_db_def example_data_def example_client_def failing_client_def
  users_table_def pg_class_table_def users_id_def users_email_def status_active_def
  users_pkey_id_def users_pkey_index_def users_email_index_def pg_class_index_def

lemma example_fetch: "fetchSchemaData example_client = Some (Inr example_data)"
  by (simp add: fetchSchemaData_def rejections_def all_rows_def example_client_def)

lemma failing_client_failed: "some_query_failed failing_client"
  by (simp add: some_query_failed_def failing_client_def)

theorem fetchSchemaData_all_or_fail_witness:
  "some_query_failed failing_client \<and>
   (\<exists>e \<in> query_errors failing_client. fetchSchemaData failing_client = Some (Inl e)) \<and>
   fetchSchemaData example_client = Some (Inr example_data) \<and>
   \<not> some_query_failed example_client \<and>
   query_INDEXES example_client = Fulfilled (indexes example_data)"
  using fetchSchemaData_all_or_fail [of failing_client example_data]
    fetchSchemaData_all_or_fail [of example_client example_data]
    failing_client_failed example_fetch
  by blast

section \<open>Properties of the catalog queries\<close>

lemma answers_set: "answers selected order_by rs \<Longrightarrow> set rs = set selected"
  unfolding answers_def by (metis set_mset_mset)

lemma answers_sorted: "answers selected order_by rs \<Longrightarrow> sorted (map order_by rs)"
  by (simp add: answers_def)

lemma fetched_answers:
  assumes "connected db client" and "fetchSchemaData client = Some (Inr data)"
  shows "answers (TABLES_QUERY db) TABLES_ORDER_BY (tables data)"
    and "answers (COLUMNS_QUERY db) COLUMNS_ORDER_BY (columns data)"
    and "answers (ENUMS_QUERY db) ENUMS_ORDER_BY (enums data)"
    and "answers (PRIMARY_KEYS_QUERY db) PRIMARY_KEYS_ORDER_BY (primaryKeys data)"
    and "answers (UNIQUES_QUERY db) UNIQUES_ORDER_BY (uniques data)"
    and "answers (FOREIGN_KEYS_QUERY db) FOREIGN_KEYS_ORDER_BY (foreignKeys data)"
    and "answers (INDEXES_QUERY db) INDEXES_ORDER_BY (indexes data)"
proof -
  from assms(2) have "all_rows client = Some data"
    by (simp add: fetchSchemaData_returns)
  then have q: "query_TABLES client = Fulfilled (tables data)"
      "query_COLUMNS client = Fulfilled (columns data)"
      "query_ENUMS client = Fulfilled (enums data)"
      "query_PRIMARY_KEYS client = Fulfilled (primaryKeys data)"
      "query_UNIQUES client = Fulfilled (uniques data)"
      "query_FOREIGN_KEYS client = Fulfilled (foreignKeys data)"
      "query_INDEXES client = Fulfilled (indexes data)"
    by (simp_all add: all_rows_eq_Some)
  from assms(1) show "answers (TABLES_QUERY db) TABLES_ORDER_BY (tables data)"
    and "answers (COLUMNS_QUERY db) COLUMNS_ORDER_BY (columns data)"
    and "answers (ENUMS_QUERY db) ENUMS_ORDER_BY (enums data)"
    and "answers (PRIMARY_KEYS_QUERY db) PRIMARY_KEYS_ORDER_BY (primaryKeys data)"
    and "answers (UNIQUES_QUERY db) UNIQUES_ORDER_BY (uniques data)"
    and "answers (FOREIGN_KEYS_QUERY db) FOREIGN_KEYS_ORDER_BY (foreignKeys data)"
    and "answers (INDEXES_QUERY db) INDEXES_ORDER_BY (indexes data)"
    unfolding connected_def q by simp_all
qed

lemma TABLES_QUERY_where:
  "r \<in> set (TABLES_QUERY db) \<Longrightarrow>
     table_schema r \<notin> {''pg_catalog'', ''information_schema''} \<and>
     table_type r \<in> {''BASE TABLE'', ''VIEW''}"
  by (auto simp: TABLES_QUERY_def)

lemma COLUMNS_QUERY_where:
  "r \<in> set (COLUMNS_QUERY db) \<Longrightarrow>
     table_schema r \<notin> {''pg_catalog'', ''information_schema''}"
  by (auto simp: COLUMNS_QUERY_def)

lemma ENUMS_QUERY_where:
  "r \<in> set (ENUMS_QUERY db) \<Longrightarrow> nspname r \<notin> {''pg_catalog'', ''information_schema''}"
  by (auto simp: ENUMS_QUERY_def)

lemma PRIMARY_KEYS_QUERY_where:
  "r \<in> set (PRIMARY_KEYS_QUERY db) \<Longrightarrow>
     table_schema r \<notin> {''pg_catalog'', ''information_schema''}"
  by (auto simp: PRIMARY_KEYS_QUERY_def)

lemma UNIQUES_QUERY_where:
  "r \<in> set (UNIQUES_QUERY db) \<Longrightarrow>
     table_schema r \<notin> {''pg_catalog'', ''information_schema''}"
  by (auto simp: UNIQUES_QUERY_def)

lemma FOREIGN_KEYS_QUERY_where:
  "r \<in> set (FOREIGN_KEYS_QUERY db) \<Longrightarrow>
     table_schema r \<notin> {''pg_catalog'', ''information_schema''}"
  by (auto simp: FOREIGN_KEYS_QUERY_def)

lemma INDEXES_QUERY_where:
  "r \<in> set (INDEXES_QUERY db) \<Longrightarrow>
     schemaname r \<notin> {''pg_catalog'', ''information_schema''}"
  by (auto simp: INDEXES_QUERY_def)

lemma example_connected: "connected example_db example_client"
  by (simp add: connected_def answers_def example_defs
      TABLES_QUERY_def COLUMNS_QUERY_def ENUMS_QUERY_def PRIMARY_KEYS_QUERY_def
      UNIQUES_QUERY_def FOREIGN_KEYS_QUERY_def INDEXES_QUERY_def
      TABLES_ORDER_BY_def COLUMNS_ORDER_BY_def ENUMS_ORDER_BY_def
      PRIMARY_KEYS_ORDER_BY_def UNIQUES_ORDER_BY_def FOREIGN_KEYS_ORDER_BY_def
      INDEXES_ORDER_BY_def)

text \<open>
  C8. On a connection to a database, no row of a snapshot returned by \<open>fetchSchemaData\<close>
  has \<open>pg_catalog\<close> or \<open>information_schema\<close> as its schema (the schema of the relation the
  row belongs to; for an enum label, of its type), in any of the seven collections, and
  every relation row has the kind \<open>BASE TABLE\<close> or \<open>VIEW\<close>.
\<close>

theorem fetchSchemaData_user_namespaces:
  assumes "connected db client" and "fetchSchemaData client = Some (Inr data)"
  shows "(\<forall>r \<in> set (tables data).
            table_schema r \<notin> {''pg_catalog'', ''information_schema''} \<and>
            table_type r \<in> {''BASE TABLE'', ''VIEW''}) \<and>
         (\<forall>r \<in> set (columns data).
            table_schema r \<notin> {''pg_catalog'', ''information_schema''}) \<and>
         (\<forall>r \<in> set (enums data). nspname r \<notin> {''pg_catalog'', ''information_schema''}) \<and>
         (\<forall>r \<in> set (primaryKeys data).
            table_schema r \<notin> {''pg_catalog'', ''information_schema''}) \<and>
         (\<forall>r \<in> set (uniques data).
            table_schema r \<notin> {''pg_catalog'', ''information_schema''}) \<and>
         (\<forall>r \<in> set (foreignKeys data).
            table_schema r \<notin> {''pg_catalog'', ''information_schema''}) \<and>
         (\<forall>r \<in> set (indexes data).
            schemaname r \<notin> {''pg_catalog'', ''information_schema''})"
proof -
  note a = fetched_answers [OF assms, THEN answers_set]
  show ?thesis
    unfolding a
    using TABLES_QUERY_where [of _ db] COLUMNS_QUERY_where [of _ db]
      ENUMS_QUERY_where [of _ db] PRIMARY_KEYS_QUERY_where [of _ db]
      UNIQUES_QUERY_where [of _ db] FOREIGN_KEYS_QUERY_where [of _ db]
      INDEXES_QUERY_where [of _ db]
    by blast
qed

theorem fetchSchemaData_user_namespaces_witness:
  "connected example_db example_client \<and>
   fetchSchemaData example_client = Some (Inr example_data) \<and>
   list_all (\<lambda>r. table_schema r \<notin> {''pg_catalog'', ''information_schema''} \<and>
                 table_type r \<in> {''BASE TABLE'', ''VIEW''}) (tables example_data) \<and>
   list_all (\<lambda>r. schemaname r \<notin> {''pg_catalog'', ''information_schema''})
     (indexes example_data) \<and>
   pg_class_table \<in> set (information_schema_tables example_db) \<and>
   pg_class_index \<in> set (pg_indexes example_db)"
  using fetchSchemaData_user_namespaces [OF example_connected example_fetch]
    example_connected example_fetch
  by (simp add: example_db_def list_all_iff)

text \<open>
  C2, as the queries have it. Every collection of a returned snapshot is sorted by the
  \<open>ORDER BY\<close> key of its query: schema and relation, then the ordinal position (columns,
  primary keys), the sort order (enum labels, after the type's schema and name) or the
  constraint name and the ordinal position (unique constraints, foreign keys). The
  relations and the index definitions are sorted by schema and relation only.
\<close>

theorem fetchSchemaData_sorted:
  assumes "connected db client" and "fetchSchemaData client = Some (Inr data)"
  shows "sorted (map TABLES_ORDER_BY (tables data)) \<and>
         sorted (map COLUMNS_ORDER_BY (columns data)) \<and>
         sorted (map ENUMS_ORDER_BY (enums data)) \<and>
         sorted (map PRIMARY_KEYS_ORDER_BY (primaryKeys data)) \<and>
         sorted (map UNIQUES_ORDER_BY (uniques data)) \<and>
         sorted (map FOREIGN_KEYS_ORDER_BY (foreignKeys data)) \<and>
         sorted (map INDEXES_ORDER_BY (indexes data))"
  using fetched_answers [OF assms, THEN answers_sorted] by simp

theorem fetchSchemaData_sorted_witness:
  "connected example_db example_client \<and>
   fetchSchemaData example_client = Some (Inr example_data) \<and>
   sorted (map COLUMNS_ORDER_BY (columns example_data)) \<and>
   sorted (map INDEXES_ORDER_BY (indexes example_data))"
  using fetchSchemaData_sorted [OF example_connected example_fetch]
    example_connected example_fetch
  by simp

text \<open>
  C2 as stated fails for the index definitions. The snapshot \<open>example_data\<close> is one the
  database may answer with, and its index rows of \<open>public.users\<close> follow neither the
  index names nor the definition texts: after schema and relation, the query text names
  no further key.
\<close>

theorem fetchSchemaData_indexes_unsorted:
  "connected example_db example_client \<and>
   fetchSchemaData example_client = Some (Inr example_data) \<and>
   \<not> sorted (map by_index_name (indexes example_data)) \<and>
   \<not> sorted (map by_index_definition (indexes example_data))"
  using example_connected example_fetch
  by (simp add: example_defs by_index_name_def by_index_definition_def)

section \<open>Properties of the exclusion rules\<close>

lemma isTableExcluded_returns: "\<exists>b. isTableExcluded engine tableKey rules = Inr b"
  by (induction rules)
     (auto split: ExclusionRuleType.splits sum.splits bool.splits)

lemma isTableExcluded_skips:
  assumes "invalid_regex engine rule"
  shows "isTableExcluded engine tableKey (rules @ rule # rules') =
         isTableExcluded engine tableKey (rules @ rules')"
proof (induction rules)
  case Nil
  from assms obtain e where "new_RegExp engine (pattern rule) = Inl e"
    by (cases "new_RegExp engine (pattern rule)") (auto simp: invalid_regex_def)
  with assms show ?case
    by (simp add: invalid_regex_def regex_test_def)
next
  case (Cons r rules)
  then show ?case
    by (simp split: ExclusionRuleType.splits sum.splits bool.splits)
qed

lemma isTableExcluded_all_invalid:
  "list_all (invalid_regex engine) rules \<Longrightarrow> isTableExcluded engine tableKey rules = Inr False"
proof (induction rules)
  case Nil
  show ?case by simp
next
  case (Cons r rules)
  then have r: "invalid_regex engine r" and "list_all (invalid_regex engine) rules"
    by simp_all
  with Cons.IH have "isTableExcluded engine tableKey rules = Inr False"
    by simp
  with isTableExcluded_skips [OF r, of tableKey "[]" rules] show ?case
    by simp
qed

lemma filter_throwing_total:
  assumes "\<And>x. \<exists>b. f x = Inr b"
  shows "filter_throwing f xs = Inr (filter (\<lambda>x. f x = Inr True) xs)"
proof (induction xs)
  case Nil
  show ?case by simp
next
  case (Cons x xs)
  from assms obtain b where "f x = Inr b" by blast
  with Cons show ?case by simp
qed

lemma filterTables_returns:
  "filterTables engine (items :: 'a Keyed_scheme list) rules =
     Inr (if rules = [] then items
          else filter (\<lambda>item. isTableExcluded engine (key item) rules = Inr False) items)"
proof (cases "rules = []")
  case True
  then show ?thesis by (simp add: filterTables_def)
next
  case False
  let ?f = "\<lambda>item. case isTableExcluded engine (key item) rules of
      Inl e \<Rightarrow> Inl e | Inr excluded \<Rightarrow> Inr (\<not> excluded)"
  have total: "\<exists>b. ?f item = Inr b" for item :: "'a Keyed_scheme"
    using isTableExcluded_returns [of engine "key item" rules] by auto
  have eq: "(?f item = Inr True) = (isTableExcluded engine (key item) rules = Inr False)"
    for item :: "'a Keyed_scheme"
    using isTableExcluded_returns [of engine "key item" rules] by auto
  have "filter_throwing ?f items = Inr (filter (\<lambda>item. ?f item = Inr True) items)"
    by (rule filter_throwing_total) (rule total)
  also have "filter (\<lambda>item. ?f item = Inr True) items =
      filter (\<lambda>item. isTableExcluded engine (key item) rules = Inr False) items"
    by (rule filter_cong) (simp_all only: eq)
  finally show ?thesis
    using False by (simp add: filterTables_def)
qed

text \<open>
  C9. For every table key and every list of rules, \<open>isTableExcluded\<close> returns a boolean
  and does not throw, and \<open>filterTables\<close> returns a list. A rule of type \<open>regex\<close> whose
  pattern is not a regular expression is skipped: the result with the rule anywhere in
  the list is the result without it, and a list of such rules alone excludes no table
  and filters no item out.
\<close>

theorem isTableExcluded_total_and_skips_invalid:
  "(\<exists>b. isTableExcluded engine tableKey rules = Inr b) \<and>
   (\<exists>kept. filterTables engine items rules = Inr kept) \<and>
   (invalid_regex engine rule \<longrightarrow>
      isTableExcluded engine tableKey (rules @ rule # rules') =
        isTableExcluded engine tableKey (rules @ rules') \<and>
      isTableExcluded engine tableKey [rule] = Inr False \<and>
      filterTables engine items [rule] = Inr items)"
proof -
  have "isTableExcluded engine k [rule] = Inr False" if "invalid_regex engine rule" for k
    using that isTableExcluded_all_invalid [of engine "[rule]" k] by simp
  then show ?thesis
    using isTableExcluded_returns [of engine tableKey rules]
      isTableExcluded_skips [of engine rule tableKey rules rules']
    by (simp add: filterTables_returns)
qed

theorem isTableExcluded_total_and_skips_invalid_witness:
  "invalid_regex plain_engine unterminated_rule \<and>
   isTableExcluded plain_engine ''public.users'' [hdb_rule, unterminated_rule] =
     isTableExcluded plain_engine ''public.users'' [hdb_rule] \<and>
   isTableExcluded plain_engine ''public.users'' [unterminated_rule] = Inr False \<and>
   filterTables plain_engine [users_item] [unterminated_rule] = Inr [users_item]"
  using isTableExcluded_total_and_skips_invalid
    [where engine = plain_engine and tableKey = "''public.users''" and rules = "[hdb_rule]"
       and rule = unterminated_rule and rules' = "[]" and items = "[users_item]"]
  by (simp add: invalid_regex_def plain_engine_def unterminated_rule_def)

section \<open>Properties of readSchemaCache\<close>

lemma readSchemaCache_never_throws: "\<exists>result. readSchemaCache JSON_parse file = Inr result"
  by (simp add: readSchemaCache_def split: sum.splits)

lemma readSchemaCache_null:
  "readSchemaCache JSON_parse Absent = Inr None"
  "readSchemaCache JSON_parse (Unreadable e) = Inr None"
  "JSON_parse raw = Inl e \<Longrightarrow> readSchemaCache JSON_parse (Content raw) = Inr None"
  by (simp_all add: readSchemaCache_def readSchemaCache_try_def)

lemma typeof_object:
  "typeof v = ''object'' \<longleftrightarrow>
     v = Value JNull \<or> (\<exists>xs. v = Value (JArray xs)) \<or> (\<exists>ps. v = Value (JObject ps))"
  by (cases v rule: typeof.cases) simp_all

lemma readSchemaCache_Some:
  "readSchemaCache JSON_parse file = Inr (Some data) \<longleftrightarrow>
     (\<exists>raw. file = Content raw \<and> JSON_parse raw = Inr data) \<and>
     \<not> falsy data \<and> typeof (get_tables data) = ''object''"
  by (auto simp: readSchemaCache_def readSchemaCache_try_def
      split: cache_file.splits sum.splits if_splits)

text \<open>
  C10 fails on the code. On a cache file whose JSON text has \<open>null\<close> for \<open>tables\<close>,
  \<open>typeof data.tables\<close> is \<open>"object"\<close>, and \<open>readSchemaCache\<close> returns the parsed
  value, not \<open>null\<close>, although its \<open>tables\<close> field is not an object.
\<close>

theorem readSchemaCache_tables_null:
  "readSchemaCache parse_tables_null (Content tables_null_text) = Inr (Some tables_null) \<and>
   get_tables tables_null = Value JNull"
  by (simp add: readSchemaCache_def readSchemaCache_try_def parse_tables_null_def
      tables_null_def)

section \<open>Properties of the sync command\<close>

lemma catch_block_keeps:
  "cache (catch_block env n err w) = cache w"
  "writeSchemaCache_calls (catch_block env n err w) = writeSchemaCache_calls w"
  by (simp_all add: catch_block_def)

lemma catch_block_reports:
  "\<not> cancelled env n \<Longrightarrow>
     state (catch_block env n err w) = State_error \<and>
     errorMessage (catch_block env n err w) = Some (error_text err) \<and>
     toasts (catch_block env n err w) =
       toasts w @ [\<lparr> style = Failure, title = ''Sync failed'', message = error_text err \<rparr>]"
  by (simp add: catch_block_def)

lemma try_block_failure:
  assumes "connect_or_query_fails env err"
  shows "try_block env w = catch_block env (failure_checkpoint env) err w"
  using assms
  by (auto simp: connect_or_query_fails_def try_block_def failure_checkpoint_def)

lemma Command_failure_keeps:
  assumes "connect_or_query_fails env err"
  shows "cache (Command env w) = cache w"
    and "writeSchemaCache_calls (Command env w) = writeSchemaCache_calls w"
  by (simp_all add: Command_def try_block_failure [OF assms] catch_block_keeps
      split: option.splits)

lemma Command_failure_reports:
  assumes "connect_or_query_fails env err" and "sync_started env"
    and "\<not> cancelled env (failure_checkpoint env)"
  shows "state (Command env w) = State_error"
    and "errorMessage (Command env w) = Some (error_text err)"
    and "toasts (Command env w) =
      toasts w @ [\<lparr> style = Failure, title = ''Sync failed'', message = error_text err \<rparr>]"
  using assms(2) catch_block_reports [OF assms(3), of err "w\<lparr>state := State_loading\<rparr>"]
  by (simp_all add: Command_def sync_started_def try_block_failure [OF assms(1)])

text \<open>
  C6, as the code has it. When connecting or a catalog query fails during a sync,
  \<open>writeSchemaCache\<close> is not called and the cache file stays as it was; and the command
  reports the failure with the message of the error, unless its view was closed by the
  time of the failure.
\<close>

theorem sync_failure_keeps_cache:
  assumes "connect_or_query_fails env err"
  shows "cache (Command env w) = cache w \<and>
         writeSchemaCache_calls (Command env w) = writeSchemaCache_calls w \<and>
         (sync_started env \<and> \<not> cancelled env (failure_checkpoint env) \<longrightarrow>
            state (Command env w) = State_error \<and>
            errorMessage (Command env w) = Some (error_text err) \<and>
            toasts (Command env w) =
              toasts w @
                [\<lparr> style = Failure, title = ''Sync failed'', message = error_text err \<rparr>])"
  using Command_failure_keeps [OF assms] Command_failure_reports [OF assms]
  by simp

lemma refused_env_fails:
  "connect_or_query_fails refused_env (Error ''connect ECONNREFUSED'')"
  "sync_started refused_env"
  "\<not> cancelled refused_env (failure_checkpoint refused_env)"
  by (simp_all add: connect_or_query_fails_def sync_started_def cancelled_def
      failure_checkpoint_def refused_env_def example_env_def)

theorem sync_failure_keeps_cache_witness:
  "connect_or_query_fails refused_env (Error ''connect ECONNREFUSED'') \<and>
   sync_started refused_env \<and> \<not> cancelled refused_env (failure_checkpoint refused_env) \<and>
   cache (Command refused_env (initial earlier_cache)) = earlier_cache \<and>
   writeSchemaCache_calls (Command refused_env (initial earlier_cache)) = 0 \<and>
   state (Command refused_env (initial earlier_cache)) = State_error \<and>
   errorMessage (Command refused_env (initial earlier_cache)) =
     Some ''connect ECONNREFUSED''"
  using sync_failure_keeps_cache [OF refused_env_fails(1), of "initial earlier_cache"]
    refused_env_fails
  by (simp add: initial_def)

text \<open>
  C6 as stated fails when the view is closed while the command connects: the
  connection is refused, the \<open>catch\<close> block finds \<open>cancelled\<close> set and returns, and
  nothing is reported: the state stays \<open>loading\<close>, no message is set, no toast is shown.
\<close>

theorem sync_failure_unreported:
  "connect_or_query_fails closed_env (Error ''connect ECONNREFUSED'') \<and>
   sync_started closed_env \<and>
   state (Command closed_env (initial earlier_cache)) = State_loading \<and>
   errorMessage (Command closed_env (initial earlier_cache)) = None \<and>
   toasts (Command closed_env (initial earlier_cache)) = []"
  by (simp add: connect_or_query_fails_def sync_started_def cancelled_def Command_def
      try_block_def catch_block_def closed_env_def refused_env_def example_env_def
      initial_def)

lemma split_first:
  "\<exists>ws. split s sep = takeWhile (\<lambda>c. c \<noteq> sep) s # ws"
  by (induction s) auto

lemma schema_cache_entry:
  "schema (cache_entry types k d) = Some (takeWhile (\<lambda>c. c \<noteq> CHR ''.'') k)"
proof -
  obtain ws where "split k (CHR ''.'') = takeWhile (\<lambda>c. c \<noteq> CHR ''.'') k # ws"
    using split_first by blast
  then show ?thesis by (simp add: cache_entry_def)
qed

lemma set_assign: "set (assign obj k v) \<subseteq> insert (k, v) (set obj)"
  by (induction obj) (auto split: if_splits)

lemma keys_assign: "fst ` set (assign obj k v) = insert k (fst ` set obj)"
proof (induction obj)
  case Nil
  show ?case by simp
next
  case (Cons p obj)
  obtain k' v' where p: "p = (k', v')" by (cases p)
  show ?case
    unfolding p using Cons.IH by (cases "k' = k") (simp_all add: insert_commute)
qed

lemma cache_loop_entries:
  "(k, e) \<in> set (cache_loop types ddls obj) \<Longrightarrow>
     (k, e) \<in> set obj \<or> (\<exists>d. (k, d) \<in> set ddls \<and> e = cache_entry types k d)"
proof (induction ddls arbitrary: obj)
  case Nil
  then show ?case by simp
next
  case (Cons p ddls)
  obtain k' d' where p: "p = (k', d')" by (cases p)
  from Cons.prems have "(k, e) \<in> set (cache_loop types ddls (assign obj k' (cache_entry types k' d')))"
    by (simp add: p)
  then have "(k, e) \<in> set (assign obj k' (cache_entry types k' d')) \<or>
      (\<exists>d. (k, d) \<in> set ddls \<and> e = cache_entry types k d)"
    by (rule Cons.IH)
  with set_assign [of obj k' "cache_entry types k' d'"] show ?case
    by (auto simp: p)
qed

lemma cache_loop_keys:
  "fst ` set (cache_loop types ddls obj) = fst ` set obj \<union> fst ` set ddls"
proof (induction ddls arbitrary: obj)
  case Nil
  show ?case by simp
next
  case (Cons p ddls)
  obtain k d where p: "p = (k, d)" by (cases p)
  show ?case
    unfolding p by (simp add: Cons.IH keys_assign)
qed

lemma Command_success:
  assumes "sync_started env" and "connect env = Resolves"
    and "fetchSchemaData (pg_client env) = Some (Inr data)"
    and "\<not> cancelled env 2" and "fs env = Done"
  shows "cache (Command env w) =
           Content (JSON_stringify env (build_cache (ddl_builder env data)))"
proof -
  from assms(4) have "\<not> cancelled env 1"
    by (auto simp: cancelled_def split: option.splits)
  with assms show ?thesis
    by (simp add: Command_def sync_started_def try_block_def writeSchemaCache_def Let_def)
qed

text \<open>
  C7. A sync that goes through writes the cache built from the result of
  \<open>buildSchemaDdl\<close>, and there every key of the DDL mapping has an entry, and every
  entry stores, with the DDL text of its key, a schema that is the part of the key
  before the first \<open>.\<close> and the kind that the kind mapping has for the key (\<open>table\<close>
  if it has none).
\<close>

theorem persisted_entries_hold_schema_and_kind:
  assumes "sync_started env" and "connect env = Resolves"
    and "fetchSchemaData (pg_client env) = Some (Inr data)"
    and "\<not> cancelled env 2" and "fs env = Done"
  shows "cache (Command env w) =
           Content (JSON_stringify env (build_cache (ddl_builder env data))) \<and>
         fst ` set (cache_tables (build_cache (ddl_builder env data))) =
           fst ` set (tableDdls (ddl_builder env data)) \<and>
         (\<forall>(k, e) \<in> set (cache_tables (build_cache (ddl_builder env data))).
            schema e = Some (takeWhile (\<lambda>c. c \<noteq> CHR ''.'') k) \<and>
            entry_type e =
              (case map_of (tableTypes (ddl_builder env data)) k of
                 None \<Rightarrow> table | Some t \<Rightarrow> t) \<and>
            (k, ddl e) \<in> set (tableDdls (ddl_builder env data)))"
proof -
  let ?out = "ddl_builder env data"
  have "schema e = Some (takeWhile (\<lambda>c. c \<noteq> CHR ''.'') k) \<and>
        entry_type e = (case map_of (tableTypes ?out) k of None \<Rightarrow> table | Some t \<Rightarrow> t) \<and>
        (k, ddl e) \<in> set (tableDdls ?out)"
    if "(k, e) \<in> set (cache_tables (build_cache ?out))" for k e
  proof -
    from that obtain d where d: "(k, d) \<in> set (tableDdls ?out)"
      and e: "e = cache_entry (tableTypes ?out) k d"
      using cache_loop_entries [of k e "tableTypes ?out" "tableDdls ?out" "[]"]
      by (auto simp: build_cache_def)
    from d show ?thesis
      unfolding e by (simp add: schema_cache_entry) (simp add: cache_entry_def)
  qed
  then show ?thesis
    using Command_success [OF assms, of w]
    by (auto simp: build_cache_def cache_loop_keys)
qed

lemma example_env_succeeds:
  "sync_started example_env" "connect example_env = Resolves"
  "fetchSchemaData (pg_client example_env) = Some (Inr example_data)"
  "\<not> cancelled example_env 2" "fs example_env = Done"
  using example_fetch
  by (simp_all add: sync_started_def cancelled_def example_env_def)

theorem persisted_entries_hold_schema_and_kind_witness:
  "sync_started example_env \<and> connect example_env = Resolves \<and>
   fetchSchemaData (pg_client example_env) = Some (Inr example_data) \<and>
   \<not> cancelled example_env 2 \<and> fs example_env = Done \<and>
   cache (Command example_env (initial Absent)) =
     Content ''public.users: create table public.users; '' \<and>
   cache_tables (build_cache (ddl_builder example_env example_data)) =
     [(''public.users'',
       \<lparr> ddl = ''create table public.users'', schema = Some ''public'',
         entry_type = table \<rparr>)]"
  using persisted_entries_hold_schema_and_kind
    [OF example_env_succeeds, of "initial Absent"] example_env_succeeds
  by (simp add: example_env_def example_build_def example_stringify_def example_data_def
      users_table_def build_cache_def cache_entry_def)

section \<open>Properties of the DDL synthesizer\<close>
















lemma dom_map_of_rows: "dom (map_of (map (\<lambda>r. (f r, g r)) xs)) = f ` set xs"
  by (simp add: dom_map_of_conv_image_fst image_image)

lemma kind_of_some_relation:
  assumes "r \<in> set (tables s)"
  shows "\<exists>r' \<in> set (tables s). owner r' = owner r \<and>
           kindByRelation (buildSchemaDdl s) (owner r) = Some (relation_kind r')"
proof -
  let ?m = "map_of (map (\<lambda>r. (owner r, relation_kind r)) (tables s))"
  from assms have "owner r \<in> dom ?m"
    unfolding dom_map_of_rows by (rule imageI)
  then obtain kd where kd: "?m (owner r) = Some kd" by blast
  then have "(owner r, kd) \<in> set (map (\<lambda>r. (owner r, relation_kind r)) (tables s))"
    by (rule map_of_SomeD)
  then obtain r' where "r' \<in> set (tables s)" "owner r' = owner r" "kd = relation_kind r'"
    by auto
  with kd show ?thesis
    by (auto simp: buildSchemaDdl_def)
qed

text \<open>
  C5. Every relation of the snapshot has an entry in the kind mapping, whose value is
  \<open>table\<close> or \<open>view\<close> (the kind of a relation row with that qualified name), and
  every key of the DDL mapping is a key of the kind mapping.
\<close>

theorem kind_mapping_total:
  "(\<forall>r \<in> set (tables s).
      kindByRelation (buildSchemaDdl s) (owner r) \<in> {Some table, Some view} \<and>
      (\<exists>r' \<in> set (tables s). owner r' = owner r \<and>
         kindByRelation (buildSchemaDdl s) (owner r) = Some (relation_kind r'))) \<and>
   dom (ddlByRelation (buildSchemaDdl s)) \<subseteq> dom (kindByRelation (buildSchemaDdl s))"
proof -
  have "kindByRelation (buildSchemaDdl s) (owner r) \<in> {Some table, Some view}"
    if "r \<in> set (tables s)" for r
  proof -
    from kind_of_some_relation [OF that] obtain kd
      where "kindByRelation (buildSchemaDdl s) (owner r) = Some kd" by blast
    then show ?thesis by (cases kd) simp_all
  qed
  moreover have "dom (ddlByRelation (buildSchemaDdl s)) = dom (kindByRelation (buildSchemaDdl s))"
    by (simp add: buildSchemaDdl_def dom_map_of_rows)
  ultimately show ?thesis
    using kind_of_some_relation [of _ s] by blast
qed












lemmas ddl_defs = buildSchemaDdl_def relation_ddl_def statement_def column_definitions_def
  column_definition_def column_type_def declared_type_def enum_labels_def relation_columns_def
  constraint_clauses_def primary_key_clauses_def unique_clauses_def foreign_key_clauses_def
  foreign_key_clause_def key_clause_def constraint_names_def constraint_group_def
  index_statements_def relation_kind_def owner_def index_owner_def qualified_name_def
  quoted_def number_def






text \<open>
  The end-to-end scenarios of the specification (section 8): a relation without columns
  and constraints, a view with constraint rows, enum labels fed in reverse order.
\<close>

lemma empty_relation_ddl:
  "relation_ddl \<lparr> tables = [r], columns = [], enums = [], primaryKeys = [], uniques = [],
     foreignKeys = [], indexes = [] \<rparr> r =
   (if table_type r = ''BASE TABLE'' then ''create table '' else ''create view '') @
     owner r @ '' ();''"
  by (simp add: relation_ddl_def statement_def column_definitions_def relation_columns_def
      constraint_clauses_def primary_key_clauses_def unique_clauses_def
      foreign_key_clauses_def constraint_names_def index_statements_def relation_kind_def
      List.map_filter_def)

lemma view_ddl_omits_constraints:
  "relation_kind r = view \<Longrightarrow>
     relation_ddl s r =
       ''create view '' @ owner r @ '' ('' @ join '', '' (column_definitions s (owner r)) @
       '');'' @ concat (map (\<lambda>d. [CHR 0x0A] @ d @ '';'') (index_statements (indexes s) (owner r)))"
  by (simp add: relation_ddl_def statement_def)

lemma enum_labels_in_sort_order:
  "enum_labels
     [\<lparr> nspname = ''public'', typname = ''status'', enumlabel = ''inactive'', enumsortorder = 1 \<rparr>,
      \<lparr> nspname = ''public'', typname = ''status'', enumlabel = ''active'', enumsortorder = 0 \<rparr>]
     ''public'' ''status'' = [''active'', ''inactive'']"
  by (simp add: enum_labels_def)

text \<open>The DDL text of \<open>public.users\<close>, from the rows in shuffled order.\<close>

lemma users_ddl: "ddlByRelation (buildSchemaDdl shuffled_data) ''public.users'' = Some
  ''create table public.users (id integer(32,0) not null, email character varying(100), constraint users_pkey primary key (id));\<newline>CREATE INDEX users_email_idx ON public.users USING btree (email);\<newline>CREATE UNIQUE INDEX users_pkey ON public.users USING btree (id);''"
  by (simp add: ddl_defs shuffled_data_def example_defs decimal.simps digit_def List.map_filter_def)






theorem kind_mapping_total_witness:
  "tables example_data = [users_table] \<and>
   kindByRelation (buildSchemaDdl example_data) (owner users_table) = Some table \<and>
   dom (ddlByRelation (buildSchemaDdl example_data)) \<subseteq>
     dom (kindByRelation (buildSchemaDdl example_data))"
  using kind_mapping_total [of example_data]
  by (simp add: example_data_def relation_kind_def users_table_def)

end
